theory Spec2Isabelle
  imports Main "HOL-Library.Word"
begin

section \<open>cMemLeak: allocation handles, reference-count perturbation, byte buffers\<close>

text \<open>
  A shallow embedding of \<^verbatim>\<open>src/cpy/cMemLeak.c\<close>. The C functions of the file are
  translated one by one and keep their names. What they call in the host runtime
  (the three allocator families, the argument parser, the member descriptors, the
  bytes constructor, the reference-count macros) is not part of the file; it is
  modelled from the documented behaviour of the CPython C API, each piece marked as such.

  Platform: LP64, so \<^verbatim>\<open>size_t\<close>, \<^verbatim>\<open>Py_ssize_t\<close> and \<^verbatim>\<open>unsigned long\<close> are 64 bits wide
  and two's complement.
\<close>

subsection \<open>Machine types\<close>

type_synonym size_t = "64 word"

type_synonym addr = nat

abbreviation (input) NULL :: addr where
  "NULL \<equiv> 0"

definition PY_SSIZE_T_MAX :: int where
  "PY_SSIZE_T_MAX = 2 ^ 63 - 1"

definition PY_SSIZE_T_MIN :: int where
  "PY_SSIZE_T_MIN = - (2 ^ 63)"

subsection \<open>Python values and exceptions\<close>

text \<open>
  The Python objects that reach this module as arguments or leave it as results.
  \<open>PyLong\<close> is an unbounded integer; \<open>PyStr\<close> and \<open>PyNone\<close> stand for the values
  that are not integers; \<open>PyBytes\<close> is a bytes object with its contents.
\<close>

datatype pyval = PyLong int | PyStr string | PyNone | PyBytes "8 word list"

datatype pyexc = TypeError | OverflowError | MemoryError | SystemError | AttributeError

text \<open>
  The two error kinds of the specification: InvalidArgument is what the argument
  parser raises, OutOfMemory is \<open>MemoryError\<close>.
\<close>

definition InvalidArgument :: "pyexc \<Rightarrow> bool" where
  "InvalidArgument e = (e = TypeError \<or> e = OverflowError)"

definition OutOfMemory :: "pyexc \<Rightarrow> bool" where
  "OutOfMemory e = (e = MemoryError)"

subsection \<open>The allocator families\<close>

text \<open>
  Four allocate/release pairs of the host: C's \<^verbatim>\<open>malloc\<close>/\<^verbatim>\<open>free\<close>, the raw domain
  \<^verbatim>\<open>PyMem_RawMalloc\<close>/\<^verbatim>\<open>PyMem_RawFree\<close>, the mem domain \<^verbatim>\<open>PyMem_Malloc\<close>/\<^verbatim>\<open>PyMem_Free\<close>
  and the object domain \<^verbatim>\<open>PyObject_Malloc\<close>/\<^verbatim>\<open>PyObject_Free\<close>. A block must be
  released by the release function of the family that allocated it.
\<close>

datatype family = LibC | RawDomain | MemDomain | ObjDomain

text \<open>Every call into an allocator is recorded: the accounting of a test harness.\<close>

datatype event = Alloc family size_t addr | Release family addr

text \<open>
  The part of the process state the module can touch.
  \<^item> \<open>live\<close>: the blocks handed out and not yet released, each with the family that
    allocated it and its size;
  \<^item> \<open>can_alloc\<close>: whether a family can satisfy a request of a size now (the allocators
    are outside the file: any behaviour is a choice of this field);
  \<^item> \<open>calls\<close>: the allocator calls so far, oldest first;
  \<^item> \<open>invalid_release\<close>: set when a release function was handed a non-null pointer
    that is not a live block of its own family (undefined behaviour in C);
  \<^item> \<open>err\<close>: the thread's error indicator;
  \<^item> \<open>handles\<close>: the number of handle objects that exist;
  \<^item> \<open>can_alloc_object\<close>: whether \<^verbatim>\<open>tp_alloc\<close> can create one more object;
  \<^item> \<open>junk\<close>: what uninitialised memory holds.
\<close>

record pystate =
  live :: "(addr \<times> family \<times> size_t) list"
  can_alloc :: "family \<Rightarrow> size_t \<Rightarrow> bool"
  calls :: "event list"
  invalid_release :: bool
  err :: "pyexc option"
  handles :: nat
  can_alloc_object :: bool
  junk :: "nat \<Rightarrow> 8 word"

text \<open>An address that is neither null nor in use.\<close>

definition fresh :: "pystate \<Rightarrow> addr" where
  "fresh st = Suc (fold max (map fst (live st)) 0)"

text \<open>
  Modelled from the C API documentation: an allocation function returns a new block,
  or \<^verbatim>\<open>NULL\<close> when the request fails; it never sets the error indicator.
\<close>

definition allocate :: "family \<Rightarrow> size_t \<Rightarrow> pystate \<Rightarrow> addr \<times> pystate" where
  "allocate f n st =
     (if can_alloc st f n
      then (let p = fresh st
            in (p, st\<lparr>live := (p, f, n) # live st, calls := calls st @ [Alloc f n p]\<rparr>))
      else (NULL, st\<lparr>calls := calls st @ [Alloc f n NULL]\<rparr>))"

text \<open>
  Modelled from the C API documentation: a release function does nothing on \<^verbatim>\<open>NULL\<close>;
  otherwise the pointer must be a live block of the same family.
\<close>

definition release :: "family \<Rightarrow> addr \<Rightarrow> pystate \<Rightarrow> pystate" where
  "release f p st =
     (let st1 = st\<lparr>calls := calls st @ [Release f p]\<rparr>
      in if p = NULL then st1
         else (case map_of (live st) p of
                 None \<Rightarrow> st1\<lparr>invalid_release := True\<rparr>
               | Some (g, n) \<Rightarrow>
                   if g = f then st1\<lparr>live := filter (\<lambda>b. fst b \<noteq> p) (live st)\<rparr>
                   else st1\<lparr>invalid_release := True\<rparr>))"

definition malloc :: "size_t \<Rightarrow> pystate \<Rightarrow> addr \<times> pystate" where
  "malloc = allocate LibC"

definition free :: "addr \<Rightarrow> pystate \<Rightarrow> pystate" where
  "free = release LibC"

definition PyMem_RawMalloc :: "size_t \<Rightarrow> pystate \<Rightarrow> addr \<times> pystate" where
  "PyMem_RawMalloc = allocate RawDomain"

definition PyMem_RawFree :: "addr \<Rightarrow> pystate \<Rightarrow> pystate" where
  "PyMem_RawFree = release RawDomain"

definition PyMem_Malloc :: "size_t \<Rightarrow> pystate \<Rightarrow> addr \<times> pystate" where
  "PyMem_Malloc = allocate MemDomain"

definition PyMem_Free :: "addr \<Rightarrow> pystate \<Rightarrow> pystate" where
  "PyMem_Free = release MemDomain"

subsection \<open>The argument parser\<close>

text \<open>
  Modelled from the C API documentation: format unit \<^verbatim>\<open>n\<close> converts a Python integer
  to a \<^verbatim>\<open>Py_ssize_t\<close>; any value of that range is accepted, negative ones too; an
  integer outside the range raises \<open>OverflowError\<close>, a non-integer \<open>TypeError\<close>.
  The module passes the address of a \<^verbatim>\<open>size_t\<close>, so the 64 bits written are read
  back as unsigned.
\<close>

definition convert_n :: "pyval \<Rightarrow> pyexc + size_t" where
  "convert_n v =
     (case v of
        PyLong i \<Rightarrow>
          if PY_SSIZE_T_MIN \<le> i \<and> i \<le> PY_SSIZE_T_MAX then Inr (word_of_int i)
          else Inl OverflowError
      | _ \<Rightarrow> Inl TypeError)"

text \<open>
  Modelled from the C API documentation:
  \<^verbatim>\<open>PyArg_ParseTupleAndKeywords(args, kwds, "n", {"size", NULL}, &dest)\<close>. One
  argument is required, positional or under the keyword \<^verbatim>\<open>size\<close>. \<open>Inl e\<close>: the
  parser returned 0 with exception \<open>e\<close> set and wrote nothing; \<open>Inr n\<close>: it returned
  non-zero and wrote \<open>n\<close>.
\<close>

definition PyArg_ParseTupleAndKeywords :: "pyval list \<Rightarrow> (string \<times> pyval) list \<Rightarrow> pyexc + size_t" where
  "PyArg_ParseTupleAndKeywords args kwds =
     (if length args + length kwds > 1 then Inl TypeError
      else (case args of
              a # _ \<Rightarrow> convert_n a
            | [] \<Rightarrow> (case kwds of
                       [] \<Rightarrow> Inl TypeError
                     | (k, v) # _ \<Rightarrow> if k = ''size'' then convert_n v else Inl TypeError)))"

subsection \<open>The three handle types\<close>

text \<open>
  \<^verbatim>\<open>CMallocObject\<close>, \<^verbatim>\<open>PyRawMallocObject\<close> and \<^verbatim>\<open>PyMallocObject\<close> declare the same two
  fields after the object header: \<^verbatim>\<open>size_t size; void *buffer;\<close>.
\<close>

record MallocObject =
  size_m :: size_t
  buffer :: addr

text \<open>
  Modelled from the C API documentation: \<^verbatim>\<open>tp_alloc\<close> creates the object or returns
  \<^verbatim>\<open>NULL\<close> with \<open>MemoryError\<close> set; \<^verbatim>\<open>tp_free\<close> gives the object's memory back.
\<close>

definition tp_alloc :: "pystate \<Rightarrow> bool \<times> pystate" where
  "tp_alloc st =
     (if can_alloc_object st then (True, st\<lparr>handles := Suc (handles st)\<rparr>)
      else (False, st\<lparr>err := Some MemoryError\<rparr>))"

definition tp_free :: "pystate \<Rightarrow> pystate" where
  "tp_free st = st\<lparr>handles := handles st - 1\<rparr>"

subsubsection \<open>CMallocObject\<close>

definition CMallocObject_dealloc :: "MallocObject \<Rightarrow> pystate \<Rightarrow> pystate" where
  "CMallocObject_dealloc self st = tp_free (free (buffer self) st)"

definition CMallocObject_new :: "pystate \<Rightarrow> MallocObject option \<times> pystate" where
  "CMallocObject_new st =
     (case tp_alloc st of
        (True, st1) \<Rightarrow> (Some \<lparr>size_m = 0, buffer = NULL\<rparr>, st1)
      | (False, st1) \<Rightarrow> (None, st1))"

definition CMallocObject_init ::
  "MallocObject \<Rightarrow> pyval list \<Rightarrow> (string \<times> pyval) list \<Rightarrow> pystate \<Rightarrow> int \<times> MallocObject \<times> pystate" where
  "CMallocObject_init self args kwds st =
     (case PyArg_ParseTupleAndKeywords args kwds of
        Inl e \<Rightarrow> (- 1, self, st\<lparr>err := Some e\<rparr>)
      | Inr n \<Rightarrow>
          (let self1 = self\<lparr>size_m := n\<rparr>;
               self2 = (if size_m self1 = 0 then self1\<lparr>size_m := 1\<rparr> else self1);
               (p, st1) = malloc (size_m self2) st;
               self3 = self2\<lparr>buffer := p\<rparr>
           in if buffer self3 = NULL then (- 1, self3, st1) else (0, self3, st1)))"

subsubsection \<open>PyRawMallocObject\<close>

definition PyRawMallocObject_dealloc :: "MallocObject \<Rightarrow> pystate \<Rightarrow> pystate" where
  "PyRawMallocObject_dealloc self st = tp_free (PyMem_RawFree (buffer self) st)"

definition PyRawMallocObject_new :: "pystate \<Rightarrow> MallocObject option \<times> pystate" where
  "PyRawMallocObject_new st =
     (case tp_alloc st of
        (True, st1) \<Rightarrow> (Some \<lparr>size_m = 0, buffer = NULL\<rparr>, st1)
      | (False, st1) \<Rightarrow> (None, st1))"

definition PyRawMallocObject_init ::
  "MallocObject \<Rightarrow> pyval list \<Rightarrow> (string \<times> pyval) list \<Rightarrow> pystate \<Rightarrow> int \<times> MallocObject \<times> pystate" where
  "PyRawMallocObject_init self args kwds st =
     (case PyArg_ParseTupleAndKeywords args kwds of
        Inl e \<Rightarrow> (- 1, self, st\<lparr>err := Some e\<rparr>)
      | Inr n \<Rightarrow>
          (let self1 = self\<lparr>size_m := n\<rparr>;
               self2 = (if size_m self1 = 0 then self1\<lparr>size_m := 1\<rparr> else self1);
               (p, st1) = PyMem_Malloc (size_m self2) st;
               self3 = self2\<lparr>buffer := p\<rparr>
           in if buffer self3 = NULL then (- 1, self3, st1) else (0, self3, st1)))"

subsubsection \<open>PyMallocObject\<close>

definition PyMallocObject_dealloc :: "MallocObject \<Rightarrow> pystate \<Rightarrow> pystate" where
  "PyMallocObject_dealloc self st = tp_free (PyMem_Free (buffer self) st)"

definition PyMallocObject_new :: "pystate \<Rightarrow> MallocObject option \<times> pystate" where
  "PyMallocObject_new st =
     (case tp_alloc st of
        (True, st1) \<Rightarrow> (Some \<lparr>size_m = 0, buffer = NULL\<rparr>, st1)
      | (False, st1) \<Rightarrow> (None, st1))"

definition PyMallocObject_init ::
  "MallocObject \<Rightarrow> pyval list \<Rightarrow> (string \<times> pyval) list \<Rightarrow> pystate \<Rightarrow> int \<times> MallocObject \<times> pystate" where
  "PyMallocObject_init self args kwds st =
     (case PyArg_ParseTupleAndKeywords args kwds of
        Inl e \<Rightarrow> (- 1, self, st\<lparr>err := Some e\<rparr>)
      | Inr n \<Rightarrow>
          (let self1 = self\<lparr>size_m := n\<rparr>;
               self2 = (if size_m self1 = 0 then self1\<lparr>size_m := 1\<rparr> else self1);
               (p, st1) = PyMem_Malloc (size_m self2) st;
               self3 = self2\<lparr>buffer := p\<rparr>
           in if buffer self3 = NULL then (- 1, self3, st1) else (0, self3, st1)))"

subsubsection \<open>The type objects\<close>

text \<open>
  The three \<^verbatim>\<open>PyTypeObject\<close> tables, named as \<^verbatim>\<open>PyInit_cMemLeak\<close> publishes them:
  each slot selects the function the table lists.
\<close>

datatype variant = CMalloc | PyRawMalloc | PyMalloc

definition tp_new :: "variant \<Rightarrow> pystate \<Rightarrow> MallocObject option \<times> pystate" where
  "tp_new v = (case v of
                 CMalloc \<Rightarrow> CMallocObject_new
               | PyRawMalloc \<Rightarrow> PyRawMallocObject_new
               | PyMalloc \<Rightarrow> PyMallocObject_new)"

definition tp_init ::
  "variant \<Rightarrow> MallocObject \<Rightarrow> pyval list \<Rightarrow> (string \<times> pyval) list \<Rightarrow> pystate \<Rightarrow> int \<times> MallocObject \<times> pystate" where
  "tp_init v = (case v of
                  CMalloc \<Rightarrow> CMallocObject_init
                | PyRawMalloc \<Rightarrow> PyRawMallocObject_init
                | PyMalloc \<Rightarrow> PyMallocObject_init)"

definition tp_dealloc :: "variant \<Rightarrow> MallocObject \<Rightarrow> pystate \<Rightarrow> pystate" where
  "tp_dealloc v = (case v of
                     CMalloc \<Rightarrow> CMallocObject_dealloc
                   | PyRawMalloc \<Rightarrow> PyRawMallocObject_dealloc
                   | PyMalloc \<Rightarrow> PyMallocObject_dealloc)"

text \<open>
  Modelled from the C API documentation: calling a type runs \<^verbatim>\<open>tp_new\<close>, then
  \<^verbatim>\<open>tp_init\<close> on the new object; when \<^verbatim>\<open>tp_init\<close> returns a negative value the only
  reference to the object is dropped, which runs \<^verbatim>\<open>tp_dealloc\<close>, and the call yields
  no object. A call that yields no object with no exception set is reported by the
  interpreter as \<open>SystemError\<close>.
\<close>

definition check_result :: "pystate \<Rightarrow> pystate" where
  "check_result st = (case err st of None \<Rightarrow> st\<lparr>err := Some SystemError\<rparr> | Some e \<Rightarrow> st)"

definition construct ::
  "variant \<Rightarrow> pyval list \<Rightarrow> (string \<times> pyval) list \<Rightarrow> pystate \<Rightarrow> MallocObject option \<times> pystate" where
  "construct v args kwds st =
     (case tp_new v st of
        (None, st1) \<Rightarrow> (None, check_result st1)
      | (Some self, st1) \<Rightarrow>
          (case tp_init v self args kwds st1 of
             (rc, self1, st2) \<Rightarrow>
               if rc < 0 then (None, check_result (tp_dealloc v self1 st2))
               else (Some self1, st2)))"

text \<open>Destroying a handle: its last reference goes, \<^verbatim>\<open>tp_dealloc\<close> runs.\<close>

definition destroy :: "variant \<Rightarrow> MallocObject \<Rightarrow> pystate \<Rightarrow> pystate" where
  "destroy v self st = tp_dealloc v self st"

subsection \<open>The member tables\<close>

text \<open>
  A \<^verbatim>\<open>PyMemberDef\<close> entry: name, type code, offset of the field, flags (the doc
  string is left out). The only field any table of the file exposes is \<^verbatim>\<open>size\<close>.
  \<^verbatim>\<open>READONLY\<close> is bit 0 of the flags (\<^verbatim>\<open>structmember.h\<close>).
\<close>

datatype member_type = T_ULONG

datatype member_offset = offsetof_size

record PyMemberDef =
  m_name :: string
  m_type :: member_type
  m_offset :: member_offset
  m_flags :: nat

definition READONLY :: nat where
  "READONLY = 1"

definition CMallocObject_members :: "PyMemberDef list" where
  "CMallocObject_members =
     [\<lparr>m_name = ''size'', m_type = T_ULONG, m_offset = offsetof_size, m_flags = 0\<rparr>]"

definition PyRawMallocObject_members :: "PyMemberDef list" where
  "PyRawMallocObject_members =
     [\<lparr>m_name = ''size'', m_type = T_ULONG, m_offset = offsetof_size, m_flags = 0\<rparr>]"

definition PyMallocObject_members :: "PyMemberDef list" where
  "PyMallocObject_members =
     [\<lparr>m_name = ''size'', m_type = T_ULONG, m_offset = offsetof_size, m_flags = 0\<rparr>]"

definition tp_members :: "variant \<Rightarrow> PyMemberDef list" where
  "tp_members v = (case v of
                     CMalloc \<Rightarrow> CMallocObject_members
                   | PyRawMalloc \<Rightarrow> PyRawMallocObject_members
                   | PyMalloc \<Rightarrow> PyMallocObject_members)"

text \<open>
  Modelled from the C API documentation: reading a \<^verbatim>\<open>T_ULONG\<close> member gives the
  field as a Python integer.
\<close>

definition PyMember_GetOne :: "MallocObject \<Rightarrow> PyMemberDef \<Rightarrow> pyval" where
  "PyMember_GetOne self m =
     (case m_type m of T_ULONG \<Rightarrow> (case m_offset m of offsetof_size \<Rightarrow> PyLong (uint (size_m self))))"

text \<open>
  Modelled from the C API documentation: writing a member fails with
  \<open>AttributeError\<close> when the entry carries \<^verbatim>\<open>READONLY\<close>; a numeric member cannot be
  deleted (\<open>None\<close> below is the deletion); a \<^verbatim>\<open>T_ULONG\<close> member takes an integer of
  the range of \<^verbatim>\<open>unsigned long\<close> and, for compatibility, a negative one of the range of
  \<^verbatim>\<open>long\<close>, stored modulo \<open>2 ^ 64\<close>.
\<close>

definition PyMember_SetOne :: "MallocObject \<Rightarrow> PyMemberDef \<Rightarrow> pyval option \<Rightarrow> pyexc + MallocObject" where
  "PyMember_SetOne self m value =
     (if m_flags m mod 2 = READONLY then Inl AttributeError
      else (case value of
              None \<Rightarrow> Inl TypeError
            | Some (PyLong i) \<Rightarrow>
                if PY_SSIZE_T_MIN \<le> i \<and> i < 2 ^ 64
                then (case m_type m of T_ULONG \<Rightarrow>
                        (case m_offset m of offsetof_size \<Rightarrow> Inr (self\<lparr>size_m := word_of_int i\<rparr>)))
                else Inl OverflowError
            | Some _ \<Rightarrow> Inl TypeError))"

fun find_member :: "string \<Rightarrow> PyMemberDef list \<Rightarrow> PyMemberDef option" where
  "find_member nm [] = None"
| "find_member nm (m # ms) = (if m_name m = nm then Some m else find_member nm ms)"

text \<open>
  Attribute access on a handle from Python: the name is looked up in the member table
  of the handle's type; an unknown name is an \<open>AttributeError\<close>.
\<close>

definition getattr :: "variant \<Rightarrow> MallocObject \<Rightarrow> string \<Rightarrow> pyexc + pyval" where
  "getattr v self nm =
     (case find_member nm (tp_members v) of
        None \<Rightarrow> Inl AttributeError
      | Some m \<Rightarrow> Inr (PyMember_GetOne self m))"

definition setattr :: "variant \<Rightarrow> MallocObject \<Rightarrow> string \<Rightarrow> pyval option \<Rightarrow> pyexc + MallocObject" where
  "setattr v self nm value =
     (case find_member nm (tp_members v) of
        None \<Rightarrow> Inl AttributeError
      | Some m \<Rightarrow> PyMember_SetOne self m value)"

subsection \<open>The bytes helper\<close>

text \<open>
  The size of a bytes object beyond its contents: header, length, hash and the
  terminating byte (LP64).
\<close>

definition PyBytesObject_SIZE :: int where
  "PyBytesObject_SIZE = 33"

text \<open>
  Modelled from the C API documentation: \<^verbatim>\<open>PyBytes_FromStringAndSize(NULL, size)\<close>.
  Its parameter is a \<^verbatim>\<open>Py_ssize_t\<close>, so the \<^verbatim>\<open>size_t\<close> the module passes is read as
  signed. A negative size is a \<open>SystemError\<close>; size 0 is the shared empty bytes object;
  a size that leaves no room for the header is an \<open>OverflowError\<close>; otherwise the object
  is taken from the object allocator, \<open>MemoryError\<close> when that fails, and its contents
  are left uninitialised.
\<close>

definition PyBytes_FromStringAndSize :: "size_t \<Rightarrow> pystate \<Rightarrow> pyval option \<times> pystate" where
  "PyBytes_FromStringAndSize sz st =
     (let n = sint sz
      in if n < 0 then (None, st\<lparr>err := Some SystemError\<rparr>)
         else if n = 0 then (Some (PyBytes []), st)
         else if n > PY_SSIZE_T_MAX - PyBytesObject_SIZE then (None, st\<lparr>err := Some OverflowError\<rparr>)
         else (case allocate ObjDomain (word_of_int (PyBytesObject_SIZE + n)) st of
                 (p, st1) \<Rightarrow>
                   if p = NULL then (None, st1\<lparr>err := Some MemoryError\<rparr>)
                   else (Some (PyBytes (map (junk st) [0..<nat n])), st1)))"

definition py_bytes_of_size ::
  "pyval list \<Rightarrow> (string \<times> pyval) list \<Rightarrow> pystate \<Rightarrow> pyval option \<times> pystate" where
  "py_bytes_of_size args kwds st =
     (case PyArg_ParseTupleAndKeywords args kwds of
        Inl e \<Rightarrow> (None, st\<lparr>err := Some e\<rparr>)
      | Inr sz \<Rightarrow> PyBytes_FromStringAndSize sz st)"

subsection \<open>Reference counts\<close>

text \<open>
  The objects of the interpreter, by identity. An object header holds the reference
  count (a \<^verbatim>\<open>Py_ssize_t\<close>, kept as the 64 bits it occupies) and the type;
  \<open>ob_state\<close> is everything else the object holds. \<open>deallocated\<close> lists the objects
  whose deallocator has run, oldest first.
\<close>

type_synonym objid = nat

record PyObject =
  ob_refcnt :: "64 word"
  ob_type :: string
  ob_state :: nat

record objstore =
  objs :: "objid \<Rightarrow> PyObject"
  deallocated :: "objid list"

text \<open>The \<^verbatim>\<open>None\<close> singleton.\<close>

definition Py_None :: objid where
  "Py_None = 0"

text \<open>
  Modelled from the C API documentation: \<^verbatim>\<open>Py_INCREF(op)\<close> is
  \<^verbatim>\<open>op->ob_refcnt++\<close>; \<^verbatim>\<open>Py_DECREF(op)\<close> is
  \<^verbatim>\<open>if (--op->ob_refcnt == 0) _Py_Dealloc(op)\<close>; neither looks at the type. (These
  are the macros of the interpreters the module was written for; later ones leave the
  count of an immortal object alone.) What a deallocator does depends on the type and is
  not followed here: the call is recorded.
\<close>

definition Py_INCREF :: "objid \<Rightarrow> objstore \<Rightarrow> objstore" where
  "Py_INCREF op s = s\<lparr>objs := (objs s)(op := (objs s op)\<lparr>ob_refcnt := ob_refcnt (objs s op) + 1\<rparr>)\<rparr>"

definition Py_Dealloc :: "objid \<Rightarrow> objstore \<Rightarrow> objstore" where
  "Py_Dealloc op s = s\<lparr>deallocated := deallocated s @ [op]\<rparr>"

definition Py_DECREF :: "objid \<Rightarrow> objstore \<Rightarrow> objstore" where
  "Py_DECREF op s =
     (let s1 = s\<lparr>objs := (objs s)(op := (objs s op)\<lparr>ob_refcnt := ob_refcnt (objs s op) - 1\<rparr>)\<rparr>
      in if ob_refcnt (objs s1 op) = 0 then Py_Dealloc op s1 else s1)"

text \<open>
  \<^verbatim>\<open>Py_RETURN_NONE\<close> returns a new reference to \<^verbatim>\<open>None\<close>: it increments the count of
  the singleton, which is the argument's count when the argument is \<^verbatim>\<open>None\<close>.
\<close>

definition py_incref :: "objid \<Rightarrow> objstore \<Rightarrow> objid option \<times> objstore" where
  "py_incref pobj s = (let s1 = Py_INCREF pobj s in (Some Py_None, Py_INCREF Py_None s1))"

definition py_decref :: "objid \<Rightarrow> objstore \<Rightarrow> objid option \<times> objstore" where
  "py_decref pobj s = (let s1 = Py_DECREF pobj s in (Some Py_None, Py_INCREF Py_None s1))"

text \<open>
  Modelled from the interpreter's calling convention: a function returns a reference the
  caller owns, and a call from Python whose result is not kept releases it at once.
\<close>

definition call_stmt :: "(objstore \<Rightarrow> objid option \<times> objstore) \<Rightarrow> objstore \<Rightarrow> objstore" where
  "call_stmt f s =
     (case f s of
        (None, s1) \<Rightarrow> s1
      | (Some r, s1) \<Rightarrow> Py_DECREF r s1)"

subsection \<open>Reading the accounting\<close>

text \<open>The allocation requests among the recorded calls.\<close>

fun is_Alloc :: "event \<Rightarrow> bool" where
  "is_Alloc (Alloc f n p) = True"
| "is_Alloc (Release f p) = False"

definition allocations :: "pystate \<Rightarrow> event list" where
  "allocations st = filter is_Alloc (calls st)"

subsection \<open>Which family each handle type uses\<close>

text \<open>
  Read off the three \<^verbatim>\<open>_init\<close> and the three \<^verbatim>\<open>_dealloc\<close> functions: the family
  the buffer is taken from and the family it is handed back to. Lemmas
  \<open>tp_init_parsed\<close> and \<open>tp_dealloc_eq\<close> below prove that the functions do so.
\<close>

definition init_family :: "variant \<Rightarrow> family" where
  "init_family v = (case v of CMalloc \<Rightarrow> LibC | PyRawMalloc \<Rightarrow> MemDomain | PyMalloc \<Rightarrow> MemDomain)"

definition dealloc_family :: "variant \<Rightarrow> family" where
  "dealloc_family v = (case v of CMalloc \<Rightarrow> LibC | PyRawMalloc \<Rightarrow> RawDomain | PyMalloc \<Rightarrow> MemDomain)"

subsection \<open>Sample states\<close>

text \<open>A process with nothing allocated whose allocators satisfy requests up to 4096 bytes.\<close>

definition small_heap :: pystate where
  "small_heap =
     \<lparr>live = [], can_alloc = (\<lambda>f n. n \<le> 4096), calls = [], invalid_release = False,
      err = None, handles = 0, can_alloc_object = True, junk = (\<lambda>i. 0)\<rparr>"

text \<open>
  An object store holding \<^verbatim>\<open>None\<close> and integers, each with one reference, no
  deallocator run so far.
\<close>

definition sample_store :: objstore where
  "sample_store =
     \<lparr>objs = (\<lambda>i. if i = Py_None then \<lparr>ob_refcnt = 1, ob_type = ''NoneType'', ob_state = 0\<rparr>
                  else \<lparr>ob_refcnt = 1, ob_type = ''int'', ob_state = i\<rparr>),
      deallocated = []\<rparr>"

section \<open>Properties\<close>

subsection \<open>Unfolding sets and arithmetic of the machine types\<close>

lemmas alloc_defs = allocate_def release_def fresh_def malloc_def free_def PyMem_RawMalloc_def
  PyMem_RawFree_def PyMem_Malloc_def PyMem_Free_def tp_alloc_def tp_free_def

lemmas handle_defs = CMallocObject_dealloc_def CMallocObject_new_def CMallocObject_init_def
  PyRawMallocObject_dealloc_def PyRawMallocObject_new_def PyRawMallocObject_init_def
  PyMallocObject_dealloc_def PyMallocObject_new_def PyMallocObject_init_def
  tp_new_def tp_init_def tp_dealloc_def construct_def destroy_def check_result_def

lemmas parse_defs = PyArg_ParseTupleAndKeywords_def convert_n_def PY_SSIZE_T_MAX_def
  PY_SSIZE_T_MIN_def

lemmas member_defs = CMallocObject_members_def PyRawMallocObject_members_def
  PyMallocObject_members_def tp_members_def PyMember_GetOne_def PyMember_SetOne_def
  getattr_def setattr_def READONLY_def

lemma sint_ssize:
  "PY_SSIZE_T_MIN \<le> i \<Longrightarrow> i \<le> PY_SSIZE_T_MAX \<Longrightarrow> sint (word_of_int i :: size_t) = i"
  by (simp add: sint_sbintrunc' signed_take_bit_int_eq_self PY_SSIZE_T_MIN_def PY_SSIZE_T_MAX_def)

lemma uint_negative:
  assumes "PY_SSIZE_T_MIN \<le> i" and "i < 0"
  shows "uint (word_of_int i :: size_t) = i + 2 ^ 64"
proof -
  have "uint (word_of_int i :: size_t) = i mod 2 ^ 64"
    by (simp add: uint_word_of_int take_bit_eq_mod)
  also have "\<dots> = (i + 2 ^ 64) mod 2 ^ 64"
    by simp
  also have "\<dots> = i + 2 ^ 64"
    using assms by (intro mod_pos_pos_trivial) (simp_all add: PY_SSIZE_T_MIN_def)
  finally show ?thesis .
qed

lemma uint_unsigned_long:
  assumes "0 \<le> i" and "i < 2 ^ 64"
  shows "uint (word_of_int i :: size_t) = i"
  using assms by (simp add: uint_word_of_int take_bit_eq_mod)

subsection \<open>The allocators\<close>

lemma release_NULL: "release f NULL st = st\<lparr>calls := calls st @ [Release f NULL]\<rparr>"
  by (simp add: release_def)

lemma allocate_fails:
  "\<not> can_alloc st f n \<Longrightarrow> allocate f n st = (NULL, st\<lparr>calls := calls st @ [Alloc f n NULL]\<rparr>)"
  by (simp add: allocate_def)

lemma allocate_succeeds:
  "can_alloc st f n \<Longrightarrow>
   allocate f n st =
     (fresh st, st\<lparr>live := (fresh st, f, n) # live st, calls := calls st @ [Alloc f n (fresh st)]\<rparr>)"
  by (simp add: allocate_def Let_def)

lemma allocate_calls:
  "calls (snd (allocate f n st)) = calls st @ [Alloc f n (fst (allocate f n st))]"
  by (simp add: allocate_def Let_def)

lemma fresh_not_NULL: "fresh st \<noteq> NULL"
  by (simp add: fresh_def)

lemma fold_max_ge: "a \<le> fold max xs (a::nat)"
  by (induction xs arbitrary: a) (auto intro: order_trans [OF max.cobounded2])

lemma fold_max_mem: "x \<in> set xs \<Longrightarrow> x \<le> fold max xs (a::nat)"
  by (induction xs arbitrary: a) (auto intro: order_trans [OF max.cobounded1 fold_max_ge])

lemma fresh_not_live: "map_of (live st) (fresh st) = None"
proof -
  have "fresh st \<notin> fst ` set (live st)"
  proof
    assume "fresh st \<in> fst ` set (live st)"
    then have "fresh st \<in> set (map fst (live st))" by simp
    from fold_max_mem [OF this, of 0] show False by (simp add: fresh_def)
  qed
  then show ?thesis by (simp add: map_of_eq_None_iff)
qed

subsection \<open>The slots of the three types, in one equation each\<close>

lemma tp_new_eq:
  "tp_new v st =
     (if can_alloc_object st
      then (Some \<lparr>size_m = 0, buffer = NULL\<rparr>, st\<lparr>handles := Suc (handles st)\<rparr>)
      else (None, st\<lparr>err := Some MemoryError\<rparr>))"
  by (cases v) (simp_all add: tp_new_def CMallocObject_new_def PyRawMallocObject_new_def
      PyMallocObject_new_def tp_alloc_def)

lemma tp_init_rejected:
  "PyArg_ParseTupleAndKeywords args kwds = Inl e \<Longrightarrow>
   tp_init v self args kwds st = (- 1, self, st\<lparr>err := Some e\<rparr>)"
  by (cases v) (simp_all add: tp_init_def CMallocObject_init_def PyRawMallocObject_init_def
      PyMallocObject_init_def)

lemma tp_init_parsed:
  "PyArg_ParseTupleAndKeywords args kwds = Inr n \<Longrightarrow>
   tp_init v self args kwds st =
     (if fst (allocate (init_family v) (if n = 0 then 1 else n) st) = NULL then - 1 else 0,
      self\<lparr>size_m := (if n = 0 then 1 else n),
           buffer := fst (allocate (init_family v) (if n = 0 then 1 else n) st)\<rparr>,
      snd (allocate (init_family v) (if n = 0 then 1 else n) st))"
  by (cases v; cases "n = 0")
     (simp_all add: tp_init_def CMallocObject_init_def PyRawMallocObject_init_def
      PyMallocObject_init_def init_family_def malloc_def PyMem_Malloc_def Let_def
      split: prod.splits)

lemma tp_dealloc_eq:
  "tp_dealloc v self st = tp_free (release (dealloc_family v) (buffer self) st)"
  by (cases v) (simp_all add: tp_dealloc_def CMallocObject_dealloc_def
      PyRawMallocObject_dealloc_def PyMallocObject_dealloc_def dealloc_family_def free_def
      PyMem_RawFree_def PyMem_Free_def)

subsection \<open>Parsing and construction\<close>

lemma parse_int:
  "PY_SSIZE_T_MIN \<le> i \<Longrightarrow> i \<le> PY_SSIZE_T_MAX \<Longrightarrow>
   PyArg_ParseTupleAndKeywords [PyLong i] [] = Inr (word_of_int i)"
  by (simp add: PyArg_ParseTupleAndKeywords_def convert_n_def)

lemma parse_int_kw:
  "PY_SSIZE_T_MIN \<le> i \<Longrightarrow> i \<le> PY_SSIZE_T_MAX \<Longrightarrow>
   PyArg_ParseTupleAndKeywords [] [(''size'', PyLong i)] = Inr (word_of_int i)"
  by (simp add: PyArg_ParseTupleAndKeywords_def convert_n_def)

lemma parse_error_kind:
  "PyArg_ParseTupleAndKeywords args kwds = Inl e \<Longrightarrow> InvalidArgument e"
  by (auto simp add: PyArg_ParseTupleAndKeywords_def convert_n_def InvalidArgument_def
      split: if_splits list.splits pyval.splits)

lemma construct_eq:
  "can_alloc_object st \<Longrightarrow>
   construct v args kwds st =
     (case tp_init v \<lparr>size_m = 0, buffer = NULL\<rparr> args kwds (st\<lparr>handles := Suc (handles st)\<rparr>) of
        (rc, self1, st2) \<Rightarrow>
          if rc < 0 then (None, check_result (tp_dealloc v self1 st2)) else (Some self1, st2))"
  by (simp add: construct_def tp_new_eq)

lemma construct_no_object:
  "\<not> can_alloc_object st \<Longrightarrow> construct v args kwds st = (None, st\<lparr>err := Some MemoryError\<rparr>)"
  by (simp add: construct_def tp_new_eq check_result_def)

lemma getattr_size: "getattr v self ''size'' = Inr (PyLong (uint (size_m self)))"
  by (cases v) (simp_all add: member_defs)

section \<open>The claims\<close>

subsection \<open>C3: size 0 is size 1\<close>

text \<open>
  Claim C3. For each of the three handle types, constructing with \<open>size = 0\<close> is the same
  as constructing with \<open>size = 1\<close>: \<^verbatim>\<open>tp_init\<close> gives the same result code, handle and
  state for both, whether the zero is passed by position or by keyword, and so does the
  whole construction; the one allocator call made asks for 1 byte; the handle's
  \<open>size\<close> field is 1 and its \<open>size\<close> attribute reads 1.
\<close>

theorem size_zero_as_one:
  "tp_init v self [PyLong 0] [] st = tp_init v self [PyLong 1] [] st
   \<and> tp_init v self [] [(''size'', PyLong 0)] st = tp_init v self [PyLong 1] [] st
   \<and> construct v [PyLong 0] [] st = construct v [PyLong 1] [] st
   \<and> calls (snd (snd (tp_init v self [PyLong 0] [] st))) =
       calls st @ [Alloc (init_family v) 1 (buffer (fst (snd (tp_init v self [PyLong 0] [] st))))]
   \<and> size_m (fst (snd (tp_init v self [PyLong 0] [] st))) = 1
   \<and> getattr v (fst (snd (tp_init v self [PyLong 0] [] st))) ''size'' = Inr (PyLong 1)
   \<and> (construct v [PyLong 0] [] st = (Some h, st1) \<longrightarrow> getattr v h ''size'' = Inr (PyLong 1))"
proof -
  have p0: "PyArg_ParseTupleAndKeywords [PyLong 0] [] = Inr 0"
    using parse_int [of 0] by (simp add: PY_SSIZE_T_MIN_def PY_SSIZE_T_MAX_def)
  have k0: "PyArg_ParseTupleAndKeywords [] [(''size'', PyLong 0)] = Inr 0"
    using parse_int_kw [of 0] by (simp add: PY_SSIZE_T_MIN_def PY_SSIZE_T_MAX_def)
  have p1: "PyArg_ParseTupleAndKeywords [PyLong 1] [] = Inr 1"
    using parse_int [of 1] by (simp add: PY_SSIZE_T_MIN_def PY_SSIZE_T_MAX_def)
  have i0: "tp_init v s [PyLong 0] [] t =
     (if fst (allocate (init_family v) 1 t) = NULL then - 1 else 0,
      s\<lparr>size_m := 1, buffer := fst (allocate (init_family v) 1 t)\<rparr>,
      snd (allocate (init_family v) 1 t))" for s t
    using tp_init_parsed [OF p0, of v s t] by simp
  have i1: "tp_init v s [PyLong 1] [] t =
     (if fst (allocate (init_family v) 1 t) = NULL then - 1 else 0,
      s\<lparr>size_m := 1, buffer := fst (allocate (init_family v) 1 t)\<rparr>,
      snd (allocate (init_family v) 1 t))" for s t
    using tp_init_parsed [OF p1, of v s t] by simp
  have ik: "tp_init v s [] [(''size'', PyLong 0)] t =
     (if fst (allocate (init_family v) 1 t) = NULL then - 1 else 0,
      s\<lparr>size_m := 1, buffer := fst (allocate (init_family v) 1 t)\<rparr>,
      snd (allocate (init_family v) 1 t))" for s t
    using tp_init_parsed [OF k0, of v s t] by simp
  have a: "tp_init v self [PyLong 0] [] st = tp_init v self [PyLong 1] [] st"
    by (simp only: i0 i1)
  have b: "tp_init v self [] [(''size'', PyLong 0)] st = tp_init v self [PyLong 1] [] st"
    by (simp only: ik i1)
  have c: "construct v [PyLong 0] [] st = construct v [PyLong 1] [] st"
    by (simp only: construct_def i0 i1)
  have d: "calls (snd (snd (tp_init v self [PyLong 0] [] st))) =
       calls st @ [Alloc (init_family v) 1 (buffer (fst (snd (tp_init v self [PyLong 0] [] st))))]"
    by (simp add: i0 allocate_calls)
  have e: "size_m (fst (snd (tp_init v self [PyLong 0] [] st))) = 1"
    by (simp add: i0)
  have f: "getattr v (fst (snd (tp_init v self [PyLong 0] [] st))) ''size'' = Inr (PyLong 1)"
    by (simp add: getattr_size e)
  have h: "construct v [PyLong 0] [] st = (Some h, st1) \<longrightarrow> getattr v h ''size'' = Inr (PyLong 1)"
    by (auto simp add: construct_def i0 getattr_size tp_new_eq split: prod.splits if_splits)
  from a b c d e f h show ?thesis by blast
qed

theorem size_zero_as_one_witness:
  "construct CMalloc [PyLong 0] [] small_heap =
     (Some \<lparr>size_m = 1, buffer = 1\<rparr>,
      small_heap\<lparr>live := [(1, LibC, 1)], calls := [Alloc LibC 1 1], handles := 1\<rparr>)
   \<and> getattr CMalloc \<lparr>size_m = 1, buffer = 1\<rparr> ''size'' = Inr (PyLong 1)"
proof -
  have c: "construct CMalloc [PyLong 0] [] small_heap =
     (Some \<lparr>size_m = 1, buffer = 1\<rparr>,
      small_heap\<lparr>live := [(1, LibC, 1)], calls := [Alloc LibC 1 1], handles := 1\<rparr>)"
    by (simp add: handle_defs parse_defs alloc_defs small_heap_def)
  from size_zero_as_one [of CMalloc _ small_heap "\<lparr>size_m = 1, buffer = 1\<rparr>"] c
  show ?thesis by blast
qed

subsection \<open>C10: destroying a handle that never got a buffer\<close>

lemma tp_dealloc_NULL:
  "buffer self = NULL \<Longrightarrow>
   tp_dealloc v self st = tp_free (st\<lparr>calls := calls st @ [Release (dealloc_family v) NULL]\<rparr>)"
  by (simp add: tp_dealloc_eq release_NULL)

lemma tp_init_failure_keeps_NULL:
  assumes "buffer self = NULL" and "fst (tp_init v self args kwds st) < 0"
  shows "buffer (fst (snd (tp_init v self args kwds st))) = NULL"
proof (cases "PyArg_ParseTupleAndKeywords args kwds")
  case (Inl e)
  then show ?thesis using assms by (simp add: tp_init_rejected)
next
  case (Inr n)
  then show ?thesis using assms by (simp add: tp_init_parsed split: if_splits)
qed

text \<open>
  Claim C10. A handle whose buffer is still null, as \<^verbatim>\<open>tp_new\<close> leaves it and as a failed
  \<^verbatim>\<open>tp_init\<close> (rejected arguments or a failed allocation) leaves it, is destroyed
  safely, for each of the three types: the destructor hands the null pointer to the
  release function of its family, which does nothing; no block is released, no invalid
  release happens, the error indicator is untouched.
\<close>

theorem null_buffer_destroy_safe:
  "(tp_new v st = (Some h, st1) \<longrightarrow> buffer h = NULL)
   \<and> (buffer h = NULL \<and> fst (tp_init v h args kwds st) < 0
        \<longrightarrow> buffer (fst (snd (tp_init v h args kwds st))) = NULL)
   \<and> (buffer h = NULL
        \<longrightarrow> destroy v h st = tp_free (st\<lparr>calls := calls st @ [Release (dealloc_family v) NULL]\<rparr>)
          \<and> live (destroy v h st) = live st
          \<and> invalid_release (destroy v h st) = invalid_release st
          \<and> err (destroy v h st) = err st)"
proof -
  have a: "tp_new v st = (Some h, st1) \<longrightarrow> buffer h = NULL"
    by (auto simp add: tp_new_eq split: if_splits)
  have b: "buffer h = NULL \<and> fst (tp_init v h args kwds st) < 0
        \<longrightarrow> buffer (fst (snd (tp_init v h args kwds st))) = NULL"
    using tp_init_failure_keeps_NULL by blast
  have c: "buffer h = NULL
        \<longrightarrow> destroy v h st = tp_free (st\<lparr>calls := calls st @ [Release (dealloc_family v) NULL]\<rparr>)
          \<and> live (destroy v h st) = live st
          \<and> invalid_release (destroy v h st) = invalid_release st
          \<and> err (destroy v h st) = err st"
    by (simp add: destroy_def tp_dealloc_NULL tp_free_def)
  from a b c show ?thesis by blast
qed

theorem null_buffer_destroy_safe_witness:
  "tp_new PyRawMalloc small_heap = (Some \<lparr>size_m = 0, buffer = NULL\<rparr>, small_heap\<lparr>handles := 1\<rparr>)
   \<and> fst (tp_init PyRawMalloc \<lparr>size_m = 0, buffer = NULL\<rparr> [] [] (small_heap\<lparr>handles := 1\<rparr>)) < 0
   \<and> buffer (fst (snd (tp_init PyRawMalloc \<lparr>size_m = 0, buffer = NULL\<rparr> [] [] (small_heap\<lparr>handles := 1\<rparr>)))) = NULL
   \<and> destroy PyRawMalloc \<lparr>size_m = 0, buffer = NULL\<rparr> (small_heap\<lparr>handles := 1\<rparr>) =
       small_heap\<lparr>calls := [Release RawDomain NULL]\<rparr>
   \<and> invalid_release (destroy PyRawMalloc \<lparr>size_m = 0, buffer = NULL\<rparr> (small_heap\<lparr>handles := 1\<rparr>)) = False"
proof -
  have n: "tp_new PyRawMalloc small_heap = (Some \<lparr>size_m = 0, buffer = NULL\<rparr>, small_heap\<lparr>handles := 1\<rparr>)"
    by (simp add: tp_new_eq small_heap_def)
  have i: "fst (tp_init PyRawMalloc \<lparr>size_m = 0, buffer = NULL\<rparr> [] [] (small_heap\<lparr>handles := 1\<rparr>)) < 0"
    by (simp add: handle_defs parse_defs)
  have b: "buffer \<lparr>size_m = 0, buffer = NULL\<rparr> = NULL" by simp
  have e: "tp_free (small_heap\<lparr>handles := 1, calls := calls (small_heap\<lparr>handles := 1\<rparr>) @ [Release (dealloc_family PyRawMalloc) NULL]\<rparr>)
         = small_heap\<lparr>calls := [Release RawDomain NULL]\<rparr>"
    by (simp add: tp_free_def small_heap_def dealloc_family_def)
  have f: "invalid_release (small_heap\<lparr>handles := 1\<rparr>) = False"
    by (simp add: small_heap_def)
  from null_buffer_destroy_safe [of PyRawMalloc small_heap "\<lparr>size_m = 0, buffer = NULL\<rparr>"
      "small_heap\<lparr>handles := 1\<rparr>" "[]" "[]"]
    null_buffer_destroy_safe [of PyRawMalloc "small_heap\<lparr>handles := 1\<rparr>" "\<lparr>size_m = 0, buffer = NULL\<rparr>"
      "small_heap\<lparr>handles := 1\<rparr>" "[]" "[]"] n i b e f
  show ?thesis by simp
qed

subsection \<open>C8: a missing or malformed size\<close>

lemma construct_rejected:
  assumes "PyArg_ParseTupleAndKeywords args kwds = Inl e" and "can_alloc_object st"
  shows "construct v args kwds st =
           (None, st\<lparr>calls := calls st @ [Release (dealloc_family v) NULL], err := Some e\<rparr>)"
  using assms
  by (simp add: construct_eq tp_init_rejected tp_dealloc_NULL tp_free_def check_result_def)

lemma parse_accepts_iff:
  "(\<exists>n. PyArg_ParseTupleAndKeywords args kwds = Inr n) \<longleftrightarrow>
   (\<exists>i. PY_SSIZE_T_MIN \<le> i \<and> i \<le> PY_SSIZE_T_MAX \<and>
        (args = [PyLong i] \<and> kwds = [] \<or> args = [] \<and> kwds = [(''size'', PyLong i)]))"
  by (auto simp add: PyArg_ParseTupleAndKeywords_def convert_n_def
      split: if_splits list.splits pyval.splits)

text \<open>
  Claim C8. When the size argument is missing or malformed, that is, when the argument
  parser fails (by \<open>parse_accepts_iff\<close>: whenever the arguments are not exactly one
  integer of the range of \<^verbatim>\<open>Py_ssize_t\<close>, by position or under the keyword \<open>size\<close>),
  the exception it raised is an InvalidArgument; each \<^verbatim>\<open>tp_init\<close> returns \<open>-1\<close> at once,
  leaving the handle and the state as they were but for the error indicator;
  \<^verbatim>\<open>py_bytes_of_size\<close> returns no object in the same way; the construction yields no
  handle, requests no allocation, leaves the live blocks and the number of handle objects
  unchanged, and, when the handle object itself could be created, changes nothing but the
  error indicator and the record of one release of the null pointer.
\<close>

theorem malformed_size_rejected:
  assumes "PyArg_ParseTupleAndKeywords args kwds = Inl e"
  shows "InvalidArgument e
    \<and> tp_init v self args kwds st = (- 1, self, st\<lparr>err := Some e\<rparr>)
    \<and> py_bytes_of_size args kwds st = (None, st\<lparr>err := Some e\<rparr>)
    \<and> fst (construct v args kwds st) = None
    \<and> live (snd (construct v args kwds st)) = live st
    \<and> handles (snd (construct v args kwds st)) = handles st
    \<and> allocations (snd (construct v args kwds st)) = allocations st
    \<and> (can_alloc_object st \<longrightarrow>
         construct v args kwds st =
           (None, st\<lparr>calls := calls st @ [Release (dealloc_family v) NULL], err := Some e\<rparr>))"
proof -
  have a: "InvalidArgument e" using assms by (rule parse_error_kind)
  have b: "tp_init v self args kwds st = (- 1, self, st\<lparr>err := Some e\<rparr>)"
    using assms by (rule tp_init_rejected)
  have c: "py_bytes_of_size args kwds st = (None, st\<lparr>err := Some e\<rparr>)"
    using assms by (simp add: py_bytes_of_size_def)
  have d: "can_alloc_object st \<longrightarrow>
         construct v args kwds st =
           (None, st\<lparr>calls := calls st @ [Release (dealloc_family v) NULL], err := Some e\<rparr>)"
    using assms construct_rejected by blast
  have e: "fst (construct v args kwds st) = None
    \<and> live (snd (construct v args kwds st)) = live st
    \<and> handles (snd (construct v args kwds st)) = handles st
    \<and> allocations (snd (construct v args kwds st)) = allocations st"
  proof (cases "can_alloc_object st")
    case True
    with d show ?thesis by (simp add: allocations_def)
  next
    case False
    then show ?thesis by (simp add: construct_no_object allocations_def)
  qed
  from a b c d e show ?thesis by blast
qed

theorem malformed_size_rejected_witness:
  "PyArg_ParseTupleAndKeywords [] [] = Inl TypeError
   \<and> PyArg_ParseTupleAndKeywords [PyStr ''big''] [] = Inl TypeError
   \<and> InvalidArgument TypeError
   \<and> construct CMalloc [] [] small_heap =
        (None, small_heap\<lparr>calls := [Release LibC NULL], err := Some TypeError\<rparr>)
   \<and> py_bytes_of_size [PyStr ''big''] [] small_heap = (None, small_heap\<lparr>err := Some TypeError\<rparr>)"
proof -
  have m: "PyArg_ParseTupleAndKeywords [] [] = Inl TypeError"
    by (simp add: parse_defs)
  have s: "PyArg_ParseTupleAndKeywords [PyStr ''big''] [] = Inl TypeError"
    by (simp add: parse_defs)
  have o: "can_alloc_object small_heap" "calls small_heap = []"
    by (simp_all add: small_heap_def)
  have f: "dealloc_family CMalloc = LibC" by (simp add: dealloc_family_def)
  from malformed_size_rejected [OF m, of CMalloc _ small_heap]
    malformed_size_rejected [OF s, of _ _ small_heap] m s o f
  show ?thesis by simp
qed

subsection \<open>C9: a negative size\<close>

lemma negative_word_nonzero:
  assumes "PY_SSIZE_T_MIN \<le> n" and "n < 0"
  shows "(word_of_int n :: size_t) \<noteq> 0"
proof
  assume "(word_of_int n :: size_t) = 0"
  then have "uint (word_of_int n :: size_t) = 0" by simp
  with uint_negative [OF assms] have "n + 2 ^ 64 = 0" by simp
  with assms show False by (simp add: PY_SSIZE_T_MIN_def)
qed

lemma PyBytes_negative:
  "sint sz < 0 \<Longrightarrow> PyBytes_FromStringAndSize sz st = (None, st\<lparr>err := Some SystemError\<rparr>)"
  by (simp add: PyBytes_FromStringAndSize_def)

text \<open>
  Claim C9, as amended. For every negative integer \<open>n\<close> of the range of \<^verbatim>\<open>Py_ssize_t\<close>
  the parser accepts \<open>n\<close>, and the \<^verbatim>\<open>size_t\<close> it fills reads \<open>n + 2 ^ 64\<close>. Each of the
  three \<^verbatim>\<open>tp_init\<close> functions then asks its allocator for exactly that many bytes, and
  succeeds or fails as the allocator does. \<^verbatim>\<open>py_bytes_of_size\<close> passes the value on to
  \<^verbatim>\<open>PyBytes_FromStringAndSize\<close>, which reads it as signed again and fails with
  \<open>SystemError\<close>, the state otherwise unchanged: no allocation is attempted.
\<close>

theorem negative_size_reinterpreted:
  assumes "PY_SSIZE_T_MIN \<le> n" and "n < 0"
  shows "PyArg_ParseTupleAndKeywords [PyLong n] [] = Inr (word_of_int n)
    \<and> uint (word_of_int n :: size_t) = n + 2 ^ 64
    \<and> tp_init v self [PyLong n] [] st =
        (if fst (allocate (init_family v) (word_of_int n) st) = NULL then - 1 else 0,
         self\<lparr>size_m := word_of_int n, buffer := fst (allocate (init_family v) (word_of_int n) st)\<rparr>,
         snd (allocate (init_family v) (word_of_int n) st))
    \<and> allocations (snd (snd (tp_init v self [PyLong n] [] st))) =
        allocations st @ [Alloc (init_family v) (word_of_int n) (buffer (fst (snd (tp_init v self [PyLong n] [] st))))]
    \<and> py_bytes_of_size [PyLong n] [] st = (None, st\<lparr>err := Some SystemError\<rparr>)"
proof -
  have r: "n \<le> PY_SSIZE_T_MAX" using assms by (simp add: PY_SSIZE_T_MAX_def)
  have p: "PyArg_ParseTupleAndKeywords [PyLong n] [] = Inr (word_of_int n)"
    using assms r by (simp add: parse_int)
  have u: "uint (word_of_int n :: size_t) = n + 2 ^ 64"
    using assms by (rule uint_negative)
  have z: "(word_of_int n :: size_t) \<noteq> 0"
    using assms by (rule negative_word_nonzero)
  have i: "tp_init v self [PyLong n] [] st =
        (if fst (allocate (init_family v) (word_of_int n) st) = NULL then - 1 else 0,
         self\<lparr>size_m := word_of_int n, buffer := fst (allocate (init_family v) (word_of_int n) st)\<rparr>,
         snd (allocate (init_family v) (word_of_int n) st))"
    using tp_init_parsed [OF p, of v self st] z by simp
  have c: "allocations (snd (snd (tp_init v self [PyLong n] [] st))) =
        allocations st @ [Alloc (init_family v) (word_of_int n) (buffer (fst (snd (tp_init v self [PyLong n] [] st))))]"
    by (simp add: i allocations_def allocate_calls)
  have s: "sint (word_of_int n :: size_t) < 0"
    using assms r by (simp add: sint_ssize)
  have b: "py_bytes_of_size [PyLong n] [] st = (None, st\<lparr>err := Some SystemError\<rparr>)"
    by (simp add: py_bytes_of_size_def p PyBytes_negative [OF s])
  from p u i c b show ?thesis by blast
qed

theorem negative_size_reinterpreted_witness:
  "PyArg_ParseTupleAndKeywords [PyLong (- 1)] [] = Inr (- 1)
   \<and> uint (- 1 :: size_t) = 2 ^ 64 - 1
   \<and> tp_init PyMalloc \<lparr>size_m = 0, buffer = NULL\<rparr> [PyLong (- 1)] [] small_heap =
        (- 1, \<lparr>size_m = - 1, buffer = NULL\<rparr>, small_heap\<lparr>calls := [Alloc MemDomain (- 1) NULL]\<rparr>)
   \<and> py_bytes_of_size [PyLong (- 1)] [] small_heap = (None, small_heap\<lparr>err := Some SystemError\<rparr>)"
proof -
  have h: "PY_SSIZE_T_MIN \<le> - 1" "(- 1 :: int) < 0"
    by (simp_all add: PY_SSIZE_T_MIN_def)
  have "uint (- 1 :: size_t) = 2 ^ 64 - 1"
    using uint_negative [OF h] by simp
  then have l: "\<not> (- 1 :: size_t) \<le> 4096"
    by (simp add: word_le_def)
  have a: "allocate (init_family PyMalloc) (- 1) small_heap =
             (NULL, small_heap\<lparr>calls := [Alloc MemDomain (- 1) NULL]\<rparr>)"
    by (simp add: allocate_def init_family_def small_heap_def l)
  from negative_size_reinterpreted [OF h, of PyMalloc "\<lparr>size_m = 0, buffer = NULL\<rparr>" small_heap] a
  show ?thesis by simp
qed

text \<open>
  Claim C9 as stated fails for \<^verbatim>\<open>py_bytes_of_size\<close>: on \<open>-1\<close> no allocation attempt
  follows the parsing.
\<close>

theorem py_bytes_of_size_negative_counterexample:
  "py_bytes_of_size [PyLong (- 1)] [] small_heap = (None, small_heap\<lparr>err := Some SystemError\<rparr>)
   \<and> allocations (snd (py_bytes_of_size [PyLong (- 1)] [] small_heap)) = []"
  by (simp add: py_bytes_of_size_def PyBytes_FromStringAndSize_def parse_defs small_heap_def
      allocations_def)

subsection \<open>C6: the size attribute\<close>

lemma find_member_size: "find_member ''size'' (tp_members v) =
   Some \<lparr>m_name = ''size'', m_type = T_ULONG, m_offset = offsetof_size, m_flags = 0\<rparr>"
  by (cases v) (simp_all add: tp_members_def CMallocObject_members_def
      PyRawMallocObject_members_def PyMallocObject_members_def)

lemma setattr_size:
  "setattr v self ''size'' value =
     (case value of
        None \<Rightarrow> Inl TypeError
      | Some (PyLong i) \<Rightarrow>
          if PY_SSIZE_T_MIN \<le> i \<and> i < 2 ^ 64 then Inr (self\<lparr>size_m := word_of_int i\<rparr>)
          else Inl OverflowError
      | Some _ \<Rightarrow> Inl TypeError)"
  by (simp add: setattr_def find_member_size PyMember_SetOne_def READONLY_def
      split: option.splits pyval.splits)

text \<open>
  Claim C6, as amended. For each of the three handle types the \<open>size\<close> attribute can be
  read, and it can be assigned as well, since its member entry carries flags 0 and not
  \<^verbatim>\<open>READONLY\<close>: assigning an integer \<open>i\<close> with \<open>0 \<le> i < 2 ^ 64\<close> succeeds, the attribute
  then reads \<open>i\<close>, and the buffer is untouched.
\<close>

theorem size_member_read_write:
  assumes "0 \<le> i" and "i < 2 ^ 64"
  shows "getattr v h ''size'' = Inr (PyLong (uint (size_m h)))
    \<and> setattr v h ''size'' (Some (PyLong i)) = Inr (h\<lparr>size_m := word_of_int i\<rparr>)
    \<and> getattr v (h\<lparr>size_m := word_of_int i\<rparr>) ''size'' = Inr (PyLong i)
    \<and> buffer (h\<lparr>size_m := word_of_int i\<rparr>) = buffer h"
proof -
  have a: "getattr v h ''size'' = Inr (PyLong (uint (size_m h)))"
    by (rule getattr_size)
  have b: "setattr v h ''size'' (Some (PyLong i)) = Inr (h\<lparr>size_m := word_of_int i\<rparr>)"
    using assms by (simp add: setattr_size PY_SSIZE_T_MIN_def)
  have c: "getattr v (h\<lparr>size_m := word_of_int i\<rparr>) ''size'' = Inr (PyLong i)"
    using assms by (simp add: getattr_size uint_unsigned_long)
  from a b c show ?thesis by simp
qed

theorem size_member_read_write_witness:
  "getattr PyMalloc \<lparr>size_m = 1024, buffer = 1\<rparr> ''size'' = Inr (PyLong 1024)
   \<and> setattr PyMalloc \<lparr>size_m = 1024, buffer = 1\<rparr> ''size'' (Some (PyLong 5)) = Inr \<lparr>size_m = 5, buffer = 1\<rparr>
   \<and> getattr PyMalloc \<lparr>size_m = 5, buffer = 1\<rparr> ''size'' = Inr (PyLong 5)"
proof -
  have h: "(0::int) \<le> 5" "(5::int) < 2 ^ 64" by simp_all
  from size_member_read_write [OF h, of PyMalloc "\<lparr>size_m = 1024, buffer = 1\<rparr>"]
  show ?thesis by simp
qed

text \<open>
  Claim C6 as stated fails: a handle constructed with size 1024 reads 1024, accepts the
  assignment of 5, and reads 5 afterwards.
\<close>

theorem size_assignable_counterexample:
  "construct CMalloc [PyLong 1024] [] small_heap =
     (Some \<lparr>size_m = 1024, buffer = 1\<rparr>,
      small_heap\<lparr>live := [(1, LibC, 1024)], calls := [Alloc LibC 1024 1], handles := 1\<rparr>)
   \<and> getattr CMalloc \<lparr>size_m = 1024, buffer = 1\<rparr> ''size'' = Inr (PyLong 1024)
   \<and> setattr CMalloc \<lparr>size_m = 1024, buffer = 1\<rparr> ''size'' (Some (PyLong 5)) = Inr \<lparr>size_m = 5, buffer = 1\<rparr>
   \<and> getattr CMalloc \<lparr>size_m = 5, buffer = 1\<rparr> ''size'' = Inr (PyLong 5)"
  by (simp add: handle_defs parse_defs alloc_defs small_heap_def member_defs)

subsection \<open>C4: the length of the bytes object\<close>

lemma PyBytes_result_length:
  "PyBytes_FromStringAndSize sz st = (Some r, st1) \<Longrightarrow>
   \<exists>bs. r = PyBytes bs \<and> int (length bs) = sint sz"
  by (auto simp add: PyBytes_FromStringAndSize_def Let_def split: if_splits prod.splits)

lemma PyBytes_succeeds:
  assumes "0 < sint sz" and "sint sz \<le> PY_SSIZE_T_MAX - PyBytesObject_SIZE"
    and "can_alloc st ObjDomain (word_of_int (PyBytesObject_SIZE + sint sz))"
  shows "PyBytes_FromStringAndSize sz st =
           (Some (PyBytes (map (junk st) [0..<nat (sint sz)])),
            snd (allocate ObjDomain (word_of_int (PyBytesObject_SIZE + sint sz)) st))"
  using assms
  by (simp add: PyBytes_FromStringAndSize_def Let_def allocate_succeeds fresh_not_NULL)

text \<open>
  Claim C4. For every non-negative integer \<open>n\<close>, whenever \<^verbatim>\<open>py_bytes_of_size\<close> returns
  an object it is a bytes object of length exactly \<open>n\<close>; on 0 it returns the empty bytes
  object, always, and changes nothing; and for a positive \<open>n\<close> that leaves room for the
  object header it does return an object whenever the object allocator can satisfy the
  request, its contents being whatever the memory held.
\<close>

theorem py_bytes_of_size_length:
  "(0 \<le> n \<and> py_bytes_of_size [PyLong n] [] st = (Some r, st1)
      \<longrightarrow> (\<exists>bs. r = PyBytes bs \<and> int (length bs) = n))
   \<and> py_bytes_of_size [PyLong 0] [] st = (Some (PyBytes []), st)
   \<and> (0 < n \<and> n \<le> PY_SSIZE_T_MAX - PyBytesObject_SIZE
        \<and> can_alloc st ObjDomain (word_of_int (PyBytesObject_SIZE + n))
      \<longrightarrow> fst (py_bytes_of_size [PyLong n] [] st) = Some (PyBytes (map (junk st) [0..<nat n])))"
proof -
  have a: "\<exists>bs. r = PyBytes bs \<and> int (length bs) = n"
    if "0 \<le> n" and "py_bytes_of_size [PyLong n] [] st = (Some r, st1)"
  proof (cases "n \<le> PY_SSIZE_T_MAX")
    case True
    have lo: "PY_SSIZE_T_MIN \<le> n" using that by (simp add: PY_SSIZE_T_MIN_def)
    have "PyBytes_FromStringAndSize (word_of_int n) st = (Some r, st1)"
      using that parse_int [OF lo True] by (simp add: py_bytes_of_size_def)
    from PyBytes_result_length [OF this] sint_ssize [OF lo True] show ?thesis by simp
  next
    case False
    then have "PyArg_ParseTupleAndKeywords [PyLong n] [] = Inl OverflowError"
      by (simp add: PyArg_ParseTupleAndKeywords_def convert_n_def)
    with that show ?thesis by (simp add: py_bytes_of_size_def)
  qed
  have b: "py_bytes_of_size [PyLong 0] [] st = (Some (PyBytes []), st)"
    using parse_int [of 0]
    by (simp add: py_bytes_of_size_def PyBytes_FromStringAndSize_def PY_SSIZE_T_MIN_def
        PY_SSIZE_T_MAX_def)
  have c: "fst (py_bytes_of_size [PyLong n] [] st) = Some (PyBytes (map (junk st) [0..<nat n]))"
    if "0 < n" and "n \<le> PY_SSIZE_T_MAX - PyBytesObject_SIZE"
      and "can_alloc st ObjDomain (word_of_int (PyBytesObject_SIZE + n))"
  proof -
    have lo: "PY_SSIZE_T_MIN \<le> n" using that by (simp add: PY_SSIZE_T_MIN_def)
    have hi: "n \<le> PY_SSIZE_T_MAX" using that by (simp add: PyBytesObject_SIZE_def)
    have s: "sint (word_of_int n :: size_t) = n" using lo hi by (rule sint_ssize)
    show ?thesis
      using that parse_int [OF lo hi] PyBytes_succeeds [of "word_of_int n" st]
      by (simp add: py_bytes_of_size_def s)
  qed
  from a b c show ?thesis by blast
qed

theorem py_bytes_of_size_length_witness:
  "py_bytes_of_size [PyLong 3] [] small_heap =
     (Some (PyBytes [0, 0, 0]),
      small_heap\<lparr>live := [(1, ObjDomain, 36)], calls := [Alloc ObjDomain 36 1]\<rparr>)
   \<and> int (length [0, 0, 0 :: 8 word]) = 3
   \<and> py_bytes_of_size [PyLong 0] [] small_heap = (Some (PyBytes []), small_heap)"
proof -
  have e: "py_bytes_of_size [PyLong 3] [] small_heap =
     (Some (PyBytes [0, 0, 0]),
      small_heap\<lparr>live := [(1, ObjDomain, 36)], calls := [Alloc ObjDomain 36 1]\<rparr>)"
    by (simp add: py_bytes_of_size_def PyBytes_FromStringAndSize_def parse_defs alloc_defs
        PyBytesObject_SIZE_def small_heap_def upt_rec)
  from py_bytes_of_size_length [of 3 small_heap "PyBytes [0, 0, 0]"
      "small_heap\<lparr>live := [(1, ObjDomain, 36)], calls := [Alloc ObjDomain 36 1]\<rparr>"] e
  show ?thesis by simp
qed

subsection \<open>Reference counts\<close>

lemma objs_Py_INCREF:
  "objs (Py_INCREF op s) y =
     (if y = op then (objs s op)\<lparr>ob_refcnt := ob_refcnt (objs s op) + 1\<rparr> else objs s y)"
  by (simp add: Py_INCREF_def)

lemma objs_Py_DECREF:
  "objs (Py_DECREF op s) y =
     (if y = op then (objs s op)\<lparr>ob_refcnt := ob_refcnt (objs s op) - 1\<rparr> else objs s y)"
  by (simp add: Py_DECREF_def Py_Dealloc_def Let_def)

lemma deallocated_Py_INCREF: "deallocated (Py_INCREF op s) = deallocated s"
  by (simp add: Py_INCREF_def)

lemma deallocated_Py_DECREF:
  "deallocated (Py_DECREF op s) =
     (if ob_refcnt (objs s op) = 1 then deallocated s @ [op] else deallocated s)"
proof -
  have "ob_refcnt (objs s op) - 1 = 0 \<longleftrightarrow> ob_refcnt (objs s op) = 1"
    by (metis diff_add_cancel add_0 diff_self)
  then show ?thesis by (simp add: Py_DECREF_def Py_Dealloc_def Let_def)
qed

lemma objs_call_py_incref:
  "objs (call_stmt (py_incref x) s) y =
     (if y = x then (objs s x)\<lparr>ob_refcnt := ob_refcnt (objs s x) + 1\<rparr> else objs s y)"
  by (simp add: call_stmt_def py_incref_def Let_def objs_Py_INCREF objs_Py_DECREF)

lemma objs_call_py_decref:
  "objs (call_stmt (py_decref x) s) y =
     (if y = x then (objs s x)\<lparr>ob_refcnt := ob_refcnt (objs s x) - 1\<rparr> else objs s y)"
  by (simp add: call_stmt_def py_decref_def Let_def objs_Py_INCREF objs_Py_DECREF)

subsection \<open>C7: what py_incref does\<close>

text \<open>
  Claim C7. For every object \<open>x\<close>, whatever its type, \<^verbatim>\<open>py_incref\<close> returns \<^verbatim>\<open>None\<close> and
  raises the reference count of \<open>x\<close> by exactly one, leaving the type and the rest of the
  state of \<open>x\<close> as they were, and runs no deallocator. The count is taken once the caller
  has released the reference to \<^verbatim>\<open>None\<close> that the function returned; while the caller
  still holds it, the count of \<open>x\<close> is one higher when \<open>x\<close> is \<^verbatim>\<open>None\<close> itself, which the
  sixth conjunct records.
\<close>

theorem py_incref_adds_one:
  "fst (py_incref x s) = Some Py_None
   \<and> objs (call_stmt (py_incref x) s) x = (objs s x)\<lparr>ob_refcnt := ob_refcnt (objs s x) + 1\<rparr>
   \<and> ob_refcnt (objs (call_stmt (py_incref x) s) x) = ob_refcnt (objs s x) + 1
   \<and> ob_type (objs (call_stmt (py_incref x) s) x) = ob_type (objs s x)
   \<and> ob_state (objs (call_stmt (py_incref x) s) x) = ob_state (objs s x)
   \<and> ob_refcnt (objs (snd (py_incref x s)) x) =
        ob_refcnt (objs s x) + (if x = Py_None then 2 else 1)
   \<and> ob_type (objs (snd (py_incref x s)) x) = ob_type (objs s x)
   \<and> ob_state (objs (snd (py_incref x s)) x) = ob_state (objs s x)
   \<and> deallocated (snd (py_incref x s)) = deallocated s"
  by (simp add: objs_call_py_incref py_incref_def Let_def objs_Py_INCREF deallocated_Py_INCREF)

theorem py_incref_adds_one_witness:
  "fst (py_incref 7 sample_store) = Some Py_None
   \<and> ob_refcnt (objs (call_stmt (py_incref 7) sample_store) 7) = 2
   \<and> ob_type (objs (call_stmt (py_incref 7) sample_store) 7) = ''int''
   \<and> ob_refcnt (objs (call_stmt (py_incref Py_None) sample_store) Py_None) = 2
   \<and> ob_refcnt (objs (snd (py_incref Py_None sample_store)) Py_None) = 3"
  using py_incref_adds_one [of 7 sample_store] py_incref_adds_one [of Py_None sample_store]
  by (simp add: sample_store_def Py_None_def)

subsection \<open>C5: py_incref then py_decref\<close>

text \<open>
  Claim C5. For every object \<open>x\<close> and every value of its reference count, calling
  \<^verbatim>\<open>py_incref\<close> on \<open>x\<close> and then \<^verbatim>\<open>py_decref\<close> on \<open>x\<close> leaves the count of \<open>x\<close>, and
  every object header, as it was. The count is taken once the caller has released the
  two references to \<^verbatim>\<open>None\<close> that the calls returned; while the caller still holds them
  they show in the count of \<open>x\<close> when \<open>x\<close> is \<^verbatim>\<open>None\<close> itself, which the third conjunct
  records. The deallocator of \<open>x\<close> runs in between only when the decrement brings the
  count to 0, which a count of at least 1 at the start excludes (the last conjunct).
\<close>

theorem incref_decref_net_zero:
  "objs (call_stmt (py_decref x) (call_stmt (py_incref x) s)) = objs s
   \<and> ob_refcnt (objs (call_stmt (py_decref x) (call_stmt (py_incref x) s)) x) = ob_refcnt (objs s x)
   \<and> ob_refcnt (objs (snd (py_decref x (snd (py_incref x s)))) x) =
        ob_refcnt (objs s x) + (if x = Py_None then 2 else 0)
   \<and> deallocated (snd (py_decref x (snd (py_incref x s)))) =
        (if ob_refcnt (objs s x) + (if x = Py_None then 2 else 1) = 1
         then deallocated s @ [x] else deallocated s)"
proof -
  have a: "objs (call_stmt (py_decref x) (call_stmt (py_incref x) s)) = objs s"
    by (rule ext) (simp add: objs_call_py_incref objs_call_py_decref)
  have b: "ob_refcnt (objs (snd (py_decref x (snd (py_incref x s)))) x) =
        ob_refcnt (objs s x) + (if x = Py_None then 2 else 0)"
    by (simp add: py_incref_def py_decref_def Let_def objs_Py_INCREF objs_Py_DECREF)
  have c: "deallocated (snd (py_decref x (snd (py_incref x s)))) =
        (if ob_refcnt (objs s x) + (if x = Py_None then 2 else 1) = 1
         then deallocated s @ [x] else deallocated s)"
    by (simp add: py_incref_def py_decref_def Let_def objs_Py_INCREF deallocated_Py_INCREF
        deallocated_Py_DECREF)
  from a b c show ?thesis by simp
qed

theorem incref_decref_net_zero_witness:
  "ob_refcnt (objs (call_stmt (py_decref 7) (call_stmt (py_incref 7) sample_store)) 7) = 1
   \<and> ob_refcnt (objs (call_stmt (py_decref Py_None) (call_stmt (py_incref Py_None) sample_store))
        Py_None) = 1
   \<and> deallocated (snd (py_decref 7 (snd (py_incref 7 sample_store)))) = []"
  using incref_decref_net_zero [of 7 sample_store] incref_decref_net_zero [of Py_None sample_store]
  by (simp add: sample_store_def Py_None_def)

subsection \<open>Construction followed by destruction\<close>

lemma filter_fresh: "filter (\<lambda>b. fst b \<noteq> fresh st) (live st) = live st"
proof -
  have "fst b \<noteq> fresh st" if "b \<in> set (live st)" for b
  proof
    assume "fst b = fresh st"
    moreover have "fst b \<in> set (map fst (live st))" using that by simp
    ultimately have "fresh st \<le> fold max (map fst (live st)) 0"
      using fold_max_mem by metis
    then show False by (simp add: fresh_def)
  qed
  then show ?thesis by (simp add: filter_id_conv)
qed

lemma fresh_handles: "fresh (st\<lparr>handles := k\<rparr>) = fresh st"
  by (simp add: fresh_def)

lemma release_after_allocate:
  assumes "can_alloc st f n"
  shows "release g (fst (allocate f n st)) (snd (allocate f n st)) =
     (if g = f
      then st\<lparr>calls := calls st @ [Alloc f n (fresh st), Release g (fresh st)]\<rparr>
      else st\<lparr>live := (fresh st, f, n) # live st,
              calls := calls st @ [Alloc f n (fresh st), Release g (fresh st)],
              invalid_release := True\<rparr>)"
  using assms
  by (simp add: allocate_succeeds release_def fresh_not_NULL filter_fresh)

lemma destroy_after_construct:
  assumes "construct v args kwds st = (Some h, st1)"
  shows "destroy v h st1 =
     (if v = PyRawMalloc
      then st1\<lparr>calls := calls st1 @ [Release RawDomain (buffer h)], handles := handles st,
               invalid_release := True\<rparr>
      else st1\<lparr>live := live st, calls := calls st1 @ [Release (init_family v) (buffer h)],
               handles := handles st\<rparr>)"
proof -
  from assms have o: "can_alloc_object st"
    by (auto simp add: construct_def tp_new_eq check_result_def split: if_splits)
  obtain n where p: "PyArg_ParseTupleAndKeywords args kwds = Inr n"
  proof (cases "PyArg_ParseTupleAndKeywords args kwds")
    case (Inl e)
    with assms o have False by (simp add: construct_eq tp_init_rejected)
    then show ?thesis ..
  next
    case (Inr n)
    then show ?thesis by (rule that)
  qed
  define m where "m = (if n = 0 then 1 else n)"
  define st0 where "st0 = st\<lparr>handles := Suc (handles st)\<rparr>"
  have c: "can_alloc st0 (init_family v) m"
  proof (rule ccontr)
    assume "\<not> can_alloc st0 (init_family v) m"
    with assms o p show False
      by (simp add: construct_eq tp_init_parsed allocate_fails m_def st0_def)
  qed
  have h: "h = \<lparr>size_m = m, buffer = fresh st0\<rparr>"
    and s: "st1 = st0\<lparr>live := (fresh st0, init_family v, m) # live st0,
                      calls := calls st0 @ [Alloc (init_family v) m (fresh st0)]\<rparr>"
    using assms o p c
    by (simp_all add: construct_eq tp_init_parsed allocate_succeeds fresh_not_NULL m_def [symmetric]
        st0_def [symmetric])
  have f: "fresh st0 = fresh st"
    by (simp add: fresh_def st0_def)
  have l: "live st0 = live st"
    by (simp add: st0_def)
  show ?thesis
    using filter_fresh [of st]
    by (cases v)
      (simp_all add: destroy_def tp_dealloc_eq h s release_def fresh_not_NULL fresh_handles
        dealloc_family_def init_family_def tp_free_def st0_def)
qed

subsection \<open>Allocation failure\<close>

lemma tp_init_alloc_failure:
  assumes "PyArg_ParseTupleAndKeywords args kwds = Inr n"
    and "\<not> can_alloc st (init_family v) (if n = 0 then 1 else n)"
  shows "tp_init v self args kwds st =
           (- 1, self\<lparr>size_m := (if n = 0 then 1 else n), buffer := NULL\<rparr>,
            st\<lparr>calls := calls st @ [Alloc (init_family v) (if n = 0 then 1 else n) NULL]\<rparr>)"
  using assms by (simp add: tp_init_parsed allocate_fails)

lemma construct_alloc_failure:
  assumes "PyArg_ParseTupleAndKeywords args kwds = Inr n"
    and "\<not> can_alloc st (init_family v) (if n = 0 then 1 else n)"
    and "can_alloc_object st"
  shows "construct v args kwds st =
           (None, check_result (st\<lparr>calls := calls st @
              [Alloc (init_family v) (if n = 0 then 1 else n) NULL,
               Release (dealloc_family v) NULL]\<rparr>))"
proof -
  have "\<not> can_alloc (st\<lparr>handles := Suc (handles st)\<rparr>) (init_family v) (if n = 0 then 1 else n)"
    using assms(2) by simp
  from tp_init_alloc_failure [OF assms(1) this] assms(3) show ?thesis
    by (simp add: construct_eq tp_dealloc_NULL tp_free_def check_result_def split: option.splits)
qed

lemma construct_alloc_failure_err:
  assumes "PyArg_ParseTupleAndKeywords args kwds = Inr n"
    and "\<not> can_alloc st (init_family v) (if n = 0 then 1 else n)"
    and "can_alloc_object st"
  shows "err (snd (construct v args kwds st)) =
           Some (case err st of None \<Rightarrow> SystemError | Some e \<Rightarrow> e)"
  using construct_alloc_failure [OF assms]
  by (simp add: check_result_def split: option.splits)

subsection \<open>C1: the release function of PyRawMalloc\<close>

text \<open>
  Claim C1 at \<^verbatim>\<open>PyRawMalloc(size=1)\<close>: the construction takes the buffer from the mem
  domain (\<^verbatim>\<open>PyMem_Malloc\<close>), the destruction hands it to the raw domain
  (\<^verbatim>\<open>PyMem_RawFree\<close>). The two families differ, the release is invalid and the block
  stays among the live ones. Lemma \<open>destroy_after_construct\<close> shows the same for every
  successful construction, and that the other two types release what they allocated.
\<close>

theorem PyRawMalloc_release_mismatch:
  "construct PyRawMalloc [PyLong 1] [] small_heap =
     (Some \<lparr>size_m = 1, buffer = 1\<rparr>,
      small_heap\<lparr>live := [(1, MemDomain, 1)], calls := [Alloc MemDomain 1 1], handles := 1\<rparr>)
   \<and> destroy PyRawMalloc \<lparr>size_m = 1, buffer = 1\<rparr>
        (small_heap\<lparr>live := [(1, MemDomain, 1)], calls := [Alloc MemDomain 1 1], handles := 1\<rparr>) =
      small_heap\<lparr>live := [(1, MemDomain, 1)],
                  calls := [Alloc MemDomain 1 1, Release RawDomain 1],
                  invalid_release := True\<rparr>
   \<and> MemDomain \<noteq> RawDomain"
  by (simp add: handle_defs parse_defs alloc_defs small_heap_def)

subsection \<open>C2: a failed allocation\<close>

text \<open>
  Claim C2 at size \<open>2 ^ 62\<close>, which the allocators of \<open>small_heap\<close> cannot satisfy:
  \<^verbatim>\<open>tp_init\<close> returns \<open>-1\<close> and leaves the error indicator empty, so no \<open>MemoryError\<close> is
  raised; the construction yields no handle, for each of the three types, and the
  interpreter reports the missing exception as \<open>SystemError\<close>. Lemmas
  \<open>tp_init_alloc_failure\<close> and \<open>construct_alloc_failure_err\<close> show the same for every
  size the allocator refuses.
\<close>

theorem alloc_failure_sets_no_MemoryError:
  "\<not> can_alloc small_heap LibC (2 ^ 62)
   \<and> tp_init CMalloc \<lparr>size_m = 0, buffer = NULL\<rparr> [PyLong (2 ^ 62)] [] small_heap =
       (- 1, \<lparr>size_m = 2 ^ 62, buffer = NULL\<rparr>, small_heap\<lparr>calls := [Alloc LibC (2 ^ 62) NULL]\<rparr>)
   \<and> err (small_heap\<lparr>calls := [Alloc LibC (2 ^ 62) NULL]\<rparr>) = None
   \<and> construct CMalloc [PyLong (2 ^ 62)] [] small_heap =
       (None, small_heap\<lparr>calls := [Alloc LibC (2 ^ 62) NULL, Release LibC NULL],
                         err := Some SystemError\<rparr>)
   \<and> construct PyRawMalloc [PyLong (2 ^ 62)] [] small_heap =
       (None, small_heap\<lparr>calls := [Alloc MemDomain (2 ^ 62) NULL, Release RawDomain NULL],
                         err := Some SystemError\<rparr>)
   \<and> construct PyMalloc [PyLong (2 ^ 62)] [] small_heap =
       (None, small_heap\<lparr>calls := [Alloc MemDomain (2 ^ 62) NULL, Release MemDomain NULL],
                         err := Some SystemError\<rparr>)
   \<and> \<not> OutOfMemory SystemError"
  by (simp add: handle_defs parse_defs alloc_defs small_heap_def OutOfMemory_def)

end
